theory Spec2Isabelle
  imports Complex_Main
begin

section \<open>Numbers\<close>

text \<open>
  The page (\<^verbatim>\<open>src/client/src/KakeiboPage.jsx\<close>) computes with the numbers of the
  language: binary64 doubles with round-to-nearest, ties to even. A number is a finite
  double, the negative zero, \<^verbatim>\<open>NaN\<close> or an infinity. \<open>Finite x\<close> carries the exact
  rational value of a finite double that is not the negative zero (\<open>Finite 0\<close> is the
  positive zero); every operation rounds its exact result back to a double.
\<close>

datatype jsnum = Finite rat | NegZero | NaN | PosInfinity | NegInfinity

text \<open>
  The binade of a positive rational: \<open>expUp\<close> counts the halvings that bring a value
  of at least 1 below 2 (at most 1024), \<open>expDown\<close> the doublings that bring a value
  below 1 up to 1 (at most 1022, where the subnormal range begins).
\<close>

fun expUp :: "nat \<Rightarrow> rat \<Rightarrow> nat" where
  "expUp 0 x = 0"
| "expUp (Suc n) x = (if 2 \<le> x then Suc (expUp n (x / 2)) else 0)"

fun expDown :: "nat \<Rightarrow> rat \<Rightarrow> nat" where
  "expDown 0 x = 0"
| "expDown (Suc n) x = (if x < 1 then Suc (expDown n (2 * x)) else 0)"

text \<open>
  The spacing of the doubles around a positive \<open>x\<close>: \<open>2^(e - 52)\<close> in the binade
  \<open>2^e \<le> x < 2^(e + 1)\<close>, and \<open>2^(-1074)\<close> below \<open>2^(-1022)\<close>.
\<close>

definition quantum :: "rat \<Rightarrow> rat" where
  "quantum x =
     (if 1 \<le> x then 2 ^ expUp 1024 x / 2 ^ 52 else 1 / 2 ^ (expDown 1022 x + 52))"

definition roundHalfEven :: "rat \<Rightarrow> int" where
  "roundHalfEven r =
     (let f = \<lfloor>r\<rfloor>; d = r - of_int f
      in if d < 1 / 2 then f else if 1 / 2 < d then f + 1 else if even f then f else f + 1)"

text \<open>The multiple of the spacing that is nearest to a positive \<open>x\<close>.\<close>

definition roundMag :: "rat \<Rightarrow> rat" where
  "roundMag x = of_int (roundHalfEven (x / quantum x)) * quantum x"

text \<open>
  Rounding an exact value to a number: a magnitude that rounds to \<open>2^1024\<close> or more is
  an infinity, and a negative value that rounds to 0 is the negative zero.
\<close>

definition roundDouble :: "rat \<Rightarrow> jsnum" where
  "roundDouble x =
     (if x = 0 then Finite 0
      else if 0 < x then
        (let y = roundMag x in if 2 ^ 1024 \<le> y then PosInfinity else Finite y)
      else
        (let y = roundMag (- x)
         in if 2 ^ 1024 \<le> y then NegInfinity else if y = 0 then NegZero else Finite (- y)))"

definition isInf :: "jsnum \<Rightarrow> bool" where
  "isInf x \<longleftrightarrow> x = PosInfinity \<or> x = NegInfinity"

text \<open>\<^verbatim>\<open>Number.isFinite\<close>.\<close>

definition isFinite :: "jsnum \<Rightarrow> bool" where
  "isFinite n = (case n of Finite _ \<Rightarrow> True | NegZero \<Rightarrow> True | _ \<Rightarrow> False)"

text \<open>The exact value of a finite number (both zeros have the value 0).\<close>

definition val :: "jsnum \<Rightarrow> rat" where
  "val x = (case x of Finite a \<Rightarrow> a | _ \<Rightarrow> 0)"

definition isNeg :: "jsnum \<Rightarrow> bool" where
  "isNeg x = (case x of Finite a \<Rightarrow> a < 0 | NegZero \<Rightarrow> True | NegInfinity \<Rightarrow> True | _ \<Rightarrow> False)"

definition negate :: "jsnum \<Rightarrow> jsnum" where
  "negate x =
     (case x of Finite a \<Rightarrow> (if a = 0 then NegZero else Finite (- a)) | NegZero \<Rightarrow> Finite 0
      | NaN \<Rightarrow> NaN | PosInfinity \<Rightarrow> NegInfinity | NegInfinity \<Rightarrow> PosInfinity)"

definition withSign :: "bool \<Rightarrow> jsnum \<Rightarrow> jsnum" where
  "withSign neg x = (if neg then negate x else x)"

text \<open>
  \<^verbatim>\<open>x + y\<close>. Opposite infinities give \<^verbatim>\<open>NaN\<close>; adding a zero returns the other
  operand (two negative zeros give the negative zero, any other pair of zeros the
  positive one); otherwise the exact sum is rounded.
\<close>

definition dadd :: "jsnum \<Rightarrow> jsnum \<Rightarrow> jsnum" where
  "dadd x y =
     (if x = NaN \<or> y = NaN then NaN
      else if isInf x then (if isInf y \<and> x \<noteq> y then NaN else x)
      else if isInf y then y
      else if x = NegZero then y
      else if y = NegZero then x
      else if val y = 0 then x
      else if val x = 0 then y
      else roundDouble (val x + val y))"

text \<open>\<^verbatim>\<open>x - y\<close> is \<^verbatim>\<open>x + (-y)\<close>.\<close>

definition dsub :: "jsnum \<Rightarrow> jsnum \<Rightarrow> jsnum" where
  "dsub x y = dadd x (negate y)"

text \<open>
  \<^verbatim>\<open>x * y\<close>. An infinity times a zero is \<^verbatim>\<open>NaN\<close>; the sign of the result is
  negative exactly when the signs of the operands differ.
\<close>

definition dmul :: "jsnum \<Rightarrow> jsnum \<Rightarrow> jsnum" where
  "dmul x y =
     (if x = NaN \<or> y = NaN then NaN
      else if isInf x \<or> isInf y then
        (if (\<not> isInf x \<and> val x = 0) \<or> (\<not> isInf y \<and> val y = 0) then NaN
         else withSign (isNeg x \<noteq> isNeg y) PosInfinity)
      else withSign (isNeg x \<noteq> isNeg y) (roundDouble (\<bar>val x\<bar> * \<bar>val y\<bar>)))"

text \<open>
  \<^verbatim>\<open>x / y\<close>. Two infinities or two zeros give \<^verbatim>\<open>NaN\<close>, a finite number over an
  infinity gives a zero, and a number that is not a zero over a zero gives an infinity.
\<close>

definition ddiv :: "jsnum \<Rightarrow> jsnum \<Rightarrow> jsnum" where
  "ddiv x y =
     (if x = NaN \<or> y = NaN then NaN
      else if isInf x then
        (if isInf y then NaN else withSign (isNeg x \<noteq> isNeg y) PosInfinity)
      else if isInf y then withSign (isNeg x \<noteq> isNeg y) (Finite 0)
      else if val y = 0 then
        (if val x = 0 then NaN else withSign (isNeg x \<noteq> isNeg y) PosInfinity)
      else withSign (isNeg x \<noteq> isNeg y) (roundDouble (\<bar>val x\<bar> / \<bar>val y\<bar>)))"

text \<open>
  \<^verbatim>\<open>x < y\<close>, \<^verbatim>\<open>x > y\<close> and \<^verbatim>\<open>x <= y\<close>: false when an operand is \<^verbatim>\<open>NaN\<close>, and the
  two zeros are equal.
\<close>

definition jsLt :: "jsnum \<Rightarrow> jsnum \<Rightarrow> bool" where
  "jsLt x y \<longleftrightarrow>
     (if x = NaN \<or> y = NaN then False
      else if x = PosInfinity \<or> y = NegInfinity then False
      else if x = NegInfinity \<or> y = PosInfinity then True
      else val x < val y)"

definition jsGt :: "jsnum \<Rightarrow> jsnum \<Rightarrow> bool" where
  "jsGt x y \<longleftrightarrow> jsLt y x"

definition jsLe :: "jsnum \<Rightarrow> jsnum \<Rightarrow> bool" where
  "jsLe x y \<longleftrightarrow> x \<noteq> NaN \<and> y \<noteq> NaN \<and> \<not> jsLt y x"

section \<open>Texts and the text-to-number conversion\<close>

text \<open>
  A text of the language is a sequence of UTF-16 code units, modelled as a list of
  natural numbers; \<open>str\<close> gives the units of an ASCII literal.
\<close>

type_synonym jsstring = "nat list"

definition str :: "string \<Rightarrow> jsstring" where
  "str s = map of_char s"

text \<open>
  The white space and line terminators that \<^verbatim>\<open>Number\<close> drops around a literal: tab,
  line feed, vertical tab, form feed, carriage return, space, no-break space, the
  space separators U+1680, U+2000 to U+200A, U+202F, U+205F and U+3000, the line and
  paragraph separators U+2028 and U+2029, and the byte order mark U+FEFF.
\<close>

definition isStrWhiteSpace :: "nat \<Rightarrow> bool" where
  "isStrWhiteSpace c \<longleftrightarrow>
     c \<in> set [0x09, 0x0A, 0x0B, 0x0C, 0x0D, 0x20, 0xA0, 0x1680, 0x2028, 0x2029, 0x202F,
              0x205F, 0x3000, 0xFEFF]
     \<or> (0x2000 \<le> c \<and> c \<le> 0x200A)"

definition trimString :: "jsstring \<Rightarrow> jsstring" where
  "trimString s = rev (dropWhile isStrWhiteSpace (rev (dropWhile isStrWhiteSpace s)))"

definition isDecimalDigit :: "nat \<Rightarrow> bool" where
  "isDecimalDigit c \<longleftrightarrow> 48 \<le> c \<and> c \<le> 57"

definition isHexDigit :: "nat \<Rightarrow> bool" where
  "isHexDigit c \<longleftrightarrow> (48 \<le> c \<and> c \<le> 57) \<or> (97 \<le> c \<and> c \<le> 102) \<or> (65 \<le> c \<and> c \<le> 70)"

definition isOctalDigit :: "nat \<Rightarrow> bool" where
  "isOctalDigit c \<longleftrightarrow> 48 \<le> c \<and> c \<le> 55"

definition isBinaryDigit :: "nat \<Rightarrow> bool" where
  "isBinaryDigit c \<longleftrightarrow> c = 48 \<or> c = 49"

definition digitValue :: "nat \<Rightarrow> nat" where
  "digitValue c = (if c \<le> 57 then c - 48 else if 97 \<le> c then c - 87 else c - 55)"

definition digitsValue :: "nat \<Rightarrow> jsstring \<Rightarrow> nat" where
  "digitsValue b ds = foldl (\<lambda>a c. b * a + digitValue c) 0 ds"

definition pow10 :: "int \<Rightarrow> rat" where
  "pow10 e = (if 0 \<le> e then 10 ^ nat e else 1 / 10 ^ nat (- e))"

text \<open>The exponent part \<^verbatim>\<open>[eE][+-]?digits\<close>; the empty rest is exponent 0.\<close>

definition parseExponent :: "jsstring \<Rightarrow> int option" where
  "parseExponent r =
     (if r = [] then Some 0
      else if hd r \<in> set (str ''eE'') then
        (let t = tl r;
             neg = (t \<noteq> [] \<and> hd t = 45);
             ds = (if t \<noteq> [] \<and> hd t \<in> set (str ''+-'') then tl t else t)
         in if ds \<noteq> [] \<and> list_all isDecimalDigit ds
            then Some (if neg then - int (digitsValue 10 ds) else int (digitsValue 10 ds))
            else None)
      else None)"

text \<open>
  An unsigned decimal literal: \<^verbatim>\<open>Infinity\<close>, or digits with an optional fraction and
  an optional exponent, where the integer part or the fraction has a digit. The number
  is the exact value of the literal, rounded to a double.
\<close>

definition strUnsignedDecimalLiteral :: "jsstring \<Rightarrow> jsnum" where
  "strUnsignedDecimalLiteral s =
     (if s = str ''Infinity'' then PosInfinity
      else
        (let ip = takeWhile isDecimalDigit s;
             r1 = dropWhile isDecimalDigit s;
             dot = (r1 \<noteq> [] \<and> hd r1 = 46);
             fp = (if dot then takeWhile isDecimalDigit (tl r1) else []);
             r2 = (if dot then dropWhile isDecimalDigit (tl r1) else r1)
         in if ip = [] \<and> fp = [] then NaN
            else (case parseExponent r2 of
                    None \<Rightarrow> NaN
                  | Some e \<Rightarrow>
                      roundDouble
                        (of_nat (digitsValue 10 (ip @ fp)) * pow10 (e - int (length fp))))))"

definition nonDecimalIntegerLiteral :: "nat \<Rightarrow> (nat \<Rightarrow> bool) \<Rightarrow> jsstring \<Rightarrow> jsnum" where
  "nonDecimalIntegerLiteral b isDigit ds =
     (if ds \<noteq> [] \<and> list_all isDigit ds then roundDouble (of_nat (digitsValue b ds))
      else NaN)"

text \<open>
  \<^verbatim>\<open>Number(v)\<close> on a text: surrounding white space is dropped, the empty text is 0,
  a \<^verbatim>\<open>0x\<close>, \<^verbatim>\<open>0o\<close> or \<^verbatim>\<open>0b\<close> literal takes no sign, a decimal literal takes an
  optional sign, and any other text is \<^verbatim>\<open>NaN\<close>.
\<close>

definition Number :: "jsstring \<Rightarrow> jsnum" where
  "Number v =
     (let s = trimString v
      in if s = [] then Finite 0
         else if take 2 s \<in> set [str ''0x'', str ''0X''] then
           nonDecimalIntegerLiteral 16 isHexDigit (drop 2 s)
         else if take 2 s \<in> set [str ''0o'', str ''0O''] then
           nonDecimalIntegerLiteral 8 isOctalDigit (drop 2 s)
         else if take 2 s \<in> set [str ''0b'', str ''0B''] then
           nonDecimalIntegerLiteral 2 isBinaryDigit (drop 2 s)
         else if hd s = 43 then strUnsignedDecimalLiteral (tl s)
         else if hd s = 45 then negate (strUnsignedDecimalLiteral (tl s))
         else strUnsignedDecimalLiteral s)"

text \<open>
  \<^verbatim>\<open>const clampNumber = (v) => { const n = Number(v); return Number.isFinite(n) ? n : 0; }\<close>
\<close>

definition clampNumber :: "jsstring \<Rightarrow> jsnum" where
  "clampNumber v = (let n = Number v in if isFinite n then n else Finite 0)"

section \<open>Data model\<close>

record IncomeSource =
  id' :: jsstring
  name :: jsstring
  received :: bool
  amount :: jsstring

record 'a Funds =
  ef :: 'a
  sf :: 'a
  spending :: 'a
  fun' :: 'a

datatype Mode = Amount | Percent

section \<open>Derived values\<close>

text \<open>
  \<^verbatim>\<open>sources.reduce((sum, s) => { if (!s.received) return sum;
     const amt = clampNumber(s.amount); return sum + (amt > 0 ? amt : 0); }, 0)\<close>
\<close>

definition totalIncome :: "IncomeSource list \<Rightarrow> jsnum" where
  "totalIncome srcs =
     foldl (\<lambda>sum s.
              if \<not> received s then sum
              else (let amt = clampNumber (amount s)
                    in dadd sum (if jsGt amt (Finite 0) then amt else Finite 0)))
       (Finite 0) srcs"

text \<open>\<^verbatim>\<open>const step1Valid = totalIncome > 0;\<close>\<close>

definition step1Valid :: "jsnum \<Rightarrow> bool" where
  "step1Valid ti \<longleftrightarrow> jsGt ti (Finite 0)"

text \<open>
  \<^verbatim>\<open>fundsAsAmount\<close>: under \<^verbatim>\<open>mode === "amount"\<close> the four fields read with
  \<^verbatim>\<open>clampNumber\<close>; otherwise \<^verbatim>\<open>toAmt = (p) => (totalIncome * clampNumber(p)) / 100\<close>
  on each field.
\<close>

definition fundsAsAmount :: "jsstring Funds \<Rightarrow> Mode \<Rightarrow> jsnum \<Rightarrow> jsnum Funds" where
  "fundsAsAmount fs m ti =
     (if m = Amount then
        \<lparr>ef = clampNumber (ef fs), sf = clampNumber (sf fs),
         spending = clampNumber (spending fs), fun' = clampNumber (fun' fs)\<rparr>
      else
        (let toAmt = (\<lambda>p. ddiv (dmul ti (clampNumber p)) (Finite 100))
         in \<lparr>ef = toAmt (ef fs), sf = toAmt (sf fs),
             spending = toAmt (spending fs), fun' = toAmt (fun' fs)\<rparr>))"

definition allocatedTotal :: "jsnum Funds \<Rightarrow> jsnum" where
  "allocatedTotal fa = dadd (dadd (dadd (ef fa) (sf fa)) (spending fa)) (fun' fa)"

definition remaining :: "jsnum \<Rightarrow> jsnum \<Rightarrow> jsnum" where
  "remaining ti alloc = dsub ti alloc"

section \<open>Validation\<close>

text \<open>
  \<^verbatim>\<open>step1Errors\<close>: one message when no source is received with an amount above 0,
  then, in the order of the list, one message for each received source whose amount
  is not above 0.
\<close>

definition step1Errors :: "IncomeSource list \<Rightarrow> jsstring list" where
  "step1Errors srcs =
     (let errs = [];
          errs = (if \<not> list_ex (\<lambda>s. received s \<and> jsGt (clampNumber (amount s)) (Finite 0)) srcs
                  then errs @ [str ''At least 1 source must be marked received with an amount > 0.'']
                  else errs)
      in foldl (\<lambda>errs s.
                  if received s \<and> jsLe (clampNumber (amount s)) (Finite 0)
                  then errs @ [name s @ str '': amount must be > 0 if received is ON.'']
                  else errs)
           errs srcs)"

text \<open>
  \<^verbatim>\<open>step2Errors\<close>, a function of \<^verbatim>\<open>[step1Valid, mode, funds, allocatedTotal, totalIncome]\<close>.
  The locked message returns at once. The literals \<^verbatim>\<open>0.0001\<close> and \<^verbatim>\<open>100.0001\<close> are
  the doubles nearest to \<open>1 / 10000\<close> and \<open>1000001 / 10000\<close>.
\<close>

definition step2Errors ::
  "bool \<Rightarrow> Mode \<Rightarrow> jsstring Funds \<Rightarrow> jsnum \<Rightarrow> jsnum \<Rightarrow> jsstring list" where
  "step2Errors s1valid m fs alloc ti =
     (let errs = []
      in if \<not> s1valid
         then errs @ [str ''Step 2 is locked until Step 1 has a valid total income.'']
         else
           (let errs = (if m = Amount \<and> jsGt alloc (dadd ti (roundDouble (1 / 10000)))
                        then errs @ [str ''Allocated total cannot exceed total income.'']
                        else errs);
                errs = (if m = Percent then
                          (let pctTotal =
                                 dadd (dadd (dadd (clampNumber (ef fs)) (clampNumber (sf fs)))
                                         (clampNumber (spending fs)))
                                   (clampNumber (fun' fs))
                           in if jsGt pctTotal (roundDouble (1000001 / 10000))
                              then errs @ [str ''Total percent cannot exceed 100%.'']
                              else errs)
                        else errs)
            in errs))"

text \<open>\<^verbatim>\<open>const canDone = step2Errors.length === 0;\<close>\<close>

definition canDone :: "jsstring list \<Rightarrow> bool" where
  "canDone errs \<longleftrightarrow> length errs = 0"

section \<open>Component state and the values derived from it\<close>

datatype ToastType = Success | Error

record State =
  sources :: "IncomeSource list"
  mode :: Mode
  funds :: "jsstring Funds"
  toast :: "(ToastType \<times> jsstring) option"
  doneSummary :: "jsnum Funds option"

text \<open>The initial state of the component (the \<^verbatim>\<open>useState\<close> arguments).\<close>

definition initialState :: State where
  "initialState =
     \<lparr>sources = [\<lparr>id' = str ''bpi'', name = str ''BPI'', received = False, amount = []\<rparr>,
                 \<lparr>id' = str ''gcash'', name = str ''GCash'', received = False, amount = []\<rparr>],
      mode = Amount,
      funds = \<lparr>ef = [], sf = [], spending = [], fun' = []\<rparr>,
      toast = None,
      doneSummary = None\<rparr>"

definition totalIncome_of :: "State \<Rightarrow> jsnum" where
  "totalIncome_of st = totalIncome (sources st)"

definition step1Valid_of :: "State \<Rightarrow> bool" where
  "step1Valid_of st = step1Valid (totalIncome_of st)"

definition fundsAsAmount_of :: "State \<Rightarrow> jsnum Funds" where
  "fundsAsAmount_of st = fundsAsAmount (funds st) (mode st) (totalIncome_of st)"

definition allocatedTotal_of :: "State \<Rightarrow> jsnum" where
  "allocatedTotal_of st = allocatedTotal (fundsAsAmount_of st)"

definition remaining_of :: "State \<Rightarrow> jsnum" where
  "remaining_of st = remaining (totalIncome_of st) (allocatedTotal_of st)"

definition step1Errors_of :: "State \<Rightarrow> jsstring list" where
  "step1Errors_of st = step1Errors (sources st)"

definition step2Errors_of :: "State \<Rightarrow> jsstring list" where
  "step2Errors_of st =
     step2Errors (step1Valid_of st) (mode st) (funds st) (allocatedTotal_of st)
       (totalIncome_of st)"

definition canDone_of :: "State \<Rightarrow> bool" where
  "canDone_of st = canDone (step2Errors_of st)"

section \<open>Handlers\<close>

text \<open>
  \<^verbatim>\<open>showToast\<close> stores the message; the timer that hides it 2.5 seconds later is
  outside the model.
\<close>

definition showToast :: "ToastType \<Rightarrow> jsstring \<Rightarrow> State \<Rightarrow> State" where
  "showToast ty msg st = st\<lparr>toast := Some (ty, msg)\<rparr>"

text \<open>
  A patch is an object with some of the fields \<^verbatim>\<open>received\<close> and \<^verbatim>\<open>amount\<close>;
  \<^verbatim>\<open>{ ...s, ...patch }\<close> overwrites the fields the patch has.
\<close>

record Patch =
  patch_received :: "bool option"
  patch_amount :: "jsstring option"

definition applyPatch :: "IncomeSource \<Rightarrow> Patch \<Rightarrow> IncomeSource" where
  "applyPatch s p =
     s\<lparr>received := (case patch_received p of None \<Rightarrow> received s | Some r \<Rightarrow> r),
       amount := (case patch_amount p of None \<Rightarrow> amount s | Some a \<Rightarrow> a)\<rparr>"

text \<open>
  \<^verbatim>\<open>setSources((prev) => prev.map((s) => (s.id === id ? { ...s, ...patch } : s)))\<close>
\<close>

definition updateSource :: "jsstring \<Rightarrow> Patch \<Rightarrow> State \<Rightarrow> State" where
  "updateSource i p st =
     st\<lparr>sources := map (\<lambda>s. if id' s = i then applyPatch s p else s) (sources st)\<rparr>"

text \<open>
  The \<^verbatim>\<open>onChange\<close> of the received checkbox on the card of source \<open>s\<close>:
  \<^verbatim>\<open>updateSource(s.id, { received: checked, amount: checked ? s.amount : "" })\<close>.
\<close>

definition receivedOnChange :: "IncomeSource \<Rightarrow> bool \<Rightarrow> State \<Rightarrow> State" where
  "receivedOnChange s checked st =
     updateSource (id' s)
       \<lparr>patch_received = Some checked,
        patch_amount = Some (if checked then amount s else [])\<rparr> st"

text \<open>
  The \<^verbatim>\<open>onChange\<close> of the amount input:
  \<^verbatim>\<open>updateSource(s.id, { amount: e.target.value })\<close>.
\<close>

definition amountOnChange :: "IncomeSource \<Rightarrow> jsstring \<Rightarrow> State \<Rightarrow> State" where
  "amountOnChange s v st =
     updateSource (id' s) \<lparr>patch_received = None, patch_amount = Some v\<rparr> st"

definition setMode :: "Mode \<Rightarrow> State \<Rightarrow> State" where
  "setMode m st = st\<lparr>mode := m\<rparr>"

definition setFunds :: "(jsstring Funds \<Rightarrow> jsstring Funds) \<Rightarrow> State \<Rightarrow> State" where
  "setFunds f st = st\<lparr>funds := f (funds st)\<rparr>"

text \<open>
  The messages of two toasts end with an emoji: U+2705 is one code unit, U+1F389 the
  surrogate pair D83C DF89.
\<close>

definition saveStep1Local :: "State \<Rightarrow> State" where
  "saveStep1Local st =
     (if length (step1Errors_of st) \<noteq> 0
      then showToast Error (str ''Fix Step 1 errors first.'') st
      else showToast Success (str ''Step 1 saved (local only) '' @ [0x2705])
             (st\<lparr>doneSummary := None\<rparr>))"

definition doneStep2Local :: "State \<Rightarrow> State" where
  "doneStep2Local st =
     (if \<not> canDone_of st then showToast Error (str ''Fix Step 2 errors first.'') st
      else showToast Success (str ''DONE! (local only) '' @ [0xD83C, 0xDF89])
             (st\<lparr>doneSummary := Some (fundsAsAmount_of st)\<rparr>))"

definition resetAll :: "State \<Rightarrow> State" where
  "resetAll st =
     showToast Success (str ''Reset complete'')
       (st\<lparr>sources := map (\<lambda>s. s\<lparr>received := False, amount := []\<rparr>) (sources st),
          funds := \<lparr>ef = [], sf = [], spending = [], fun' = []\<rparr>,
          mode := Amount,
          doneSummary := None\<rparr>)"

section \<open>Notions used in the proofs\<close>

text \<open>
  The least positive double is \<open>2^(-1074)\<close>. A number is positive when it is a finite
  value of at least that size or the positive infinity; the running sum of the incomes
  is the positive zero or a positive number.
\<close>

definition tiny :: rat where
  "tiny = 1 / 2 ^ 1074"

definition posNum :: "jsnum \<Rightarrow> bool" where
  "posNum j \<longleftrightarrow> (\<exists>y. j = Finite y \<and> tiny \<le> y) \<or> j = PosInfinity"

definition notTiny :: "jsnum \<Rightarrow> bool" where
  "notTiny j \<longleftrightarrow> (\<forall>y. j = Finite y \<longrightarrow> y = 0 \<or> tiny \<le> \<bar>y\<bar>)"

definition accOk :: "jsnum \<Rightarrow> bool" where
  "accOk j \<longleftrightarrow> j = Finite 0 \<or> posNum j"

section \<open>Auxiliary facts\<close>

subsection \<open>Rounding\<close>

lemma tiny_pos: "0 < tiny"
  by (simp add: tiny_def)

lemma roundHalfEven_nonneg: "0 \<le> r \<Longrightarrow> 0 \<le> roundHalfEven r"
  by (simp add: roundHalfEven_def Let_def)

lemma roundHalfEven_ge1: "1 \<le> r \<Longrightarrow> 1 \<le> roundHalfEven r"
proof -
  assume "1 \<le> r"
  then have "1 \<le> \<lfloor>r\<rfloor>" by simp
  then show ?thesis by (simp add: roundHalfEven_def Let_def)
qed

lemma expDown_le: "expDown n x \<le> n"
  by (induction n arbitrary: x) simp_all

lemma expUp_lower: "1 \<le> x \<Longrightarrow> 2 ^ expUp n x \<le> x"
proof (induction n arbitrary: x)
  case 0
  then show ?case by simp
next
  case (Suc n)
  show ?case
  proof (cases "2 \<le> x")
    case True
    then have "1 \<le> x / 2" by simp
    then have "2 ^ expUp n (x / 2) \<le> x / 2" by (rule Suc.IH)
    with True show ?thesis by simp
  next
    case False
    with Suc.prems show ?thesis by simp
  qed
qed

lemma expDown_lower: "expDown n x < n \<Longrightarrow> 1 \<le> x * 2 ^ expDown n x"
proof (induction n arbitrary: x)
  case 0
  then show ?case by simp
next
  case (Suc n)
  show ?case
  proof (cases "x < 1")
    case True
    with Suc.prems have "expDown n (2 * x) < n" by simp
    then have "1 \<le> (2 * x) * 2 ^ expDown n (2 * x)" by (rule Suc.IH)
    with True show ?thesis by (simp add: mult.assoc mult.left_commute)
  next
    case False
    then show ?thesis by simp
  qed
qed

lemma quantum_pos: "0 < quantum x"
  by (simp add: quantum_def)

lemma quantum_ge: "tiny \<le> quantum x"
proof (cases "1 \<le> x")
  case True
  have "(1::rat) \<le> 2 ^ expUp 1024 x" by simp
  then have "(1::rat) / 2 ^ 52 \<le> 2 ^ expUp 1024 x / 2 ^ 52"
    by (rule divide_right_mono) simp
  moreover have "tiny \<le> 1 / 2 ^ 52" by (simp add: tiny_def)
  ultimately show ?thesis using True by (simp add: quantum_def del: power_numeral)
next
  case False
  have "expDown 1022 x + 52 \<le> 1074" using expDown_le [of 1022 x] by simp
  then have "(2::rat) ^ (expDown 1022 x + 52) \<le> 2 ^ 1074"
    by (rule power_increasing) simp
  then have "1 / (2::rat) ^ 1074 \<le> 1 / 2 ^ (expDown 1022 x + 52)"
    by (rule divide_left_mono) simp_all
  with False show ?thesis by (simp only: quantum_def tiny_def if_False)
qed

lemma quantum_le:
  assumes "tiny \<le> x"
  shows "quantum x \<le> x"
proof (cases "1 \<le> x")
  case True
  have "2 ^ expUp 1024 x / 2 ^ 52 \<le> 2 ^ expUp 1024 x / (1::rat)"
    by (rule divide_left_mono) simp_all
  also have "\<dots> \<le> x" using expUp_lower [OF True, of 1024] by simp
  finally show ?thesis using True by (simp only: quantum_def if_True)
next
  case False
  let ?k = "expDown 1022 x"
  have q: "quantum x = 1 / 2 ^ (?k + 52)" using False by (simp only: quantum_def if_False)
  show ?thesis
  proof (cases "?k < 1022")
    case True
    then have "1 \<le> x * 2 ^ ?k" by (rule expDown_lower)
    then have "1 / 2 ^ ?k \<le> x" by (simp add: divide_le_eq)
    moreover have "1 / (2::rat) ^ (?k + 52) \<le> 1 / 2 ^ ?k"
      by (rule divide_left_mono) (simp_all add: power_add)
    ultimately show ?thesis using q by simp
  next
    case False
    with expDown_le [of 1022 x] have "?k = 1022" by simp
    then have "quantum x = tiny" using q by (simp only: tiny_def) simp
    with assms show ?thesis by simp
  qed
qed

lemma roundMag_nonneg: "0 \<le> x \<Longrightarrow> 0 \<le> roundMag x"
proof -
  assume "0 \<le> x"
  then have "0 \<le> x / quantum x" using quantum_pos [of x] by simp
  then have "0 \<le> roundHalfEven (x / quantum x)" by (rule roundHalfEven_nonneg)
  then show ?thesis using quantum_pos [of x] by (simp add: roundMag_def)
qed

lemma roundMag_zero_or_tiny:
  assumes "0 \<le> x"
  shows "roundMag x = 0 \<or> tiny \<le> roundMag x"
proof -
  let ?n = "roundHalfEven (x / quantum x)"
  from assms have "0 \<le> x / quantum x" using quantum_pos [of x] by simp
  then have n: "0 \<le> ?n" by (rule roundHalfEven_nonneg)
  show ?thesis
  proof (cases "?n = 0")
    case True
    then show ?thesis by (simp add: roundMag_def)
  next
    case False
    with n have "1 \<le> ?n" by simp
    then have "(1::rat) \<le> of_int ?n" by simp
    then have "1 * quantum x \<le> of_int ?n * quantum x"
      by (rule mult_right_mono) (simp add: quantum_pos less_imp_le)
    then have "tiny \<le> roundMag x" using quantum_ge [of x] by (simp add: roundMag_def)
    then show ?thesis ..
  qed
qed

lemma roundMag_pos:
  assumes "tiny \<le> x"
  shows "tiny \<le> roundMag x"
proof -
  let ?n = "roundHalfEven (x / quantum x)"
  have "1 \<le> x / quantum x" using quantum_le [OF assms] quantum_pos [of x] by simp
  then have "1 \<le> ?n" by (rule roundHalfEven_ge1)
  then have "(1::rat) \<le> of_int ?n" by simp
  then have "1 * quantum x \<le> of_int ?n * quantum x"
    by (rule mult_right_mono) (simp add: quantum_pos less_imp_le)
  then show ?thesis using quantum_ge [of x] by (simp add: roundMag_def)
qed

lemma roundDouble_posNum: "tiny \<le> x \<Longrightarrow> posNum (roundDouble x)"
  using roundMag_pos [of x] tiny_pos
  by (auto simp: roundDouble_def posNum_def Let_def simp del: power_numeral)

lemma roundDouble_nonneg:
  "0 \<le> x \<Longrightarrow> roundDouble x = PosInfinity \<or> (\<exists>y. roundDouble x = Finite y \<and> 0 \<le> y)"
  using roundMag_nonneg [of x]
  by (auto simp: roundDouble_def Let_def simp del: power_numeral)

lemma roundDouble_notTiny: "notTiny (roundDouble x)"
proof -
  consider "x = 0" | "0 < x" | "x < 0" by linarith
  then show ?thesis
  proof cases
    case 1
    then show ?thesis by (simp add: roundDouble_def notTiny_def)
  next
    case 2
    then show ?thesis
      using roundMag_zero_or_tiny [of x] roundMag_nonneg [of x]
      by (auto simp: roundDouble_def notTiny_def Let_def simp del: power_numeral)
  next
    case 3
    then show ?thesis
      using roundMag_zero_or_tiny [of "- x"] roundMag_nonneg [of "- x"]
      by (auto simp: roundDouble_def notTiny_def Let_def simp del: power_numeral)
  qed
qed

lemma negate_notTiny: "notTiny j \<Longrightarrow> notTiny (negate j)"
  by (cases j) (auto simp: notTiny_def negate_def)

lemma notTiny_simps:
  "notTiny NaN" "notTiny PosInfinity" "notTiny NegInfinity" "notTiny NegZero" "notTiny (Finite 0)"
  by (simp_all add: notTiny_def)

lemma strUnsignedDecimalLiteral_notTiny: "notTiny (strUnsignedDecimalLiteral s)"
  by (simp add: strUnsignedDecimalLiteral_def Let_def roundDouble_notTiny notTiny_simps
      split: option.split)

lemma nonDecimalIntegerLiteral_notTiny: "notTiny (nonDecimalIntegerLiteral b p ds)"
  by (simp add: nonDecimalIntegerLiteral_def roundDouble_notTiny notTiny_simps)

lemma Number_notTiny: "notTiny (Number v)"
  by (simp add: Number_def Let_def strUnsignedDecimalLiteral_notTiny
      nonDecimalIntegerLiteral_notTiny negate_notTiny notTiny_simps)

lemma clampNumber_notTiny: "notTiny (clampNumber v)"
  by (simp add: clampNumber_def Let_def Number_notTiny notTiny_simps)

lemma clampNumber_finite: "isFinite (clampNumber v)"
  by (simp add: clampNumber_def Let_def) (simp add: isFinite_def)

lemma clampNumber_pos:
  "jsGt (clampNumber v) (Finite 0) \<Longrightarrow> posNum (clampNumber v)"
  using clampNumber_notTiny [of v] clampNumber_finite [of v]
  by (cases "clampNumber v")
     (auto simp: jsGt_def jsLt_def val_def notTiny_def posNum_def isFinite_def)

lemma clampNumber_le_iff:
  "jsLe (clampNumber v) (Finite 0) \<longleftrightarrow> \<not> jsGt (clampNumber v) (Finite 0)"
  using clampNumber_finite [of v]
  by (cases "clampNumber v") (auto simp: jsLe_def jsGt_def jsLt_def isFinite_def)

subsection \<open>Evaluation on literals, and the running sum\<close>

lemma expUp_numeral:
  "expUp (numeral k) x = (if 2 \<le> x then Suc (expUp (pred_numeral k) (x / 2)) else 0)"
  by (simp add: numeral_eq_Suc)

lemma expDown_numeral:
  "expDown (numeral k) x = (if x < 1 then Suc (expDown (pred_numeral k) (2 * x)) else 0)"
  by (simp add: numeral_eq_Suc)

lemma floor_numeral_div: "\<lfloor>(numeral a :: rat) / numeral b\<rfloor> = numeral a div numeral b"
  using floor_divide_of_int_eq [of "numeral a" "numeral b", where ?'a = rat] by simp

lemmas round_eval = roundDouble_def roundMag_def quantum_def roundHalfEven_def expUp_numeral
  expDown_numeral floor_numeral_div Let_def

lemmas arith_eval = dadd_def dsub_def dmul_def ddiv_def jsLt_def jsGt_def jsLe_def isInf_def
  val_def isNeg_def negate_def withSign_def isFinite_def

lemmas Number_eval = Number_def str_def trimString_def isStrWhiteSpace_def
  strUnsignedDecimalLiteral_def nonDecimalIntegerLiteral_def isDecimalDigit_def isHexDigit_def
  parseExponent_def pow10_def digitsValue_def digitValue_def

lemma clampNumber_1000: "clampNumber (str ''1000'') = Finite 1000"
  by (simp add: clampNumber_def Number_eval) (simp add: round_eval arith_eval)
lemma clampNumber_500: "clampNumber (str ''500'') = Finite 500"
  by (simp add: clampNumber_def Number_eval) (simp add: round_eval arith_eval)
lemma clampNumber_neg5: "clampNumber (str ''-5'') = Finite (- 5)"
  by (simp add: clampNumber_def Number_eval) (simp add: round_eval arith_eval)
lemma clampNumber_abc: "clampNumber (str ''abc'') = Finite 0"
  by (simp add: clampNumber_def Number_eval isFinite_def)
lemma clampNumber_empty: "clampNumber [] = Finite 0"
  by (simp add: clampNumber_def Number_eval isFinite_def)
lemma clampNumber_0_1: "clampNumber (str ''0.1'') = Finite (3602879701896397 / 36028797018963968)"
  by (simp add: clampNumber_def Number_eval) (simp add: round_eval arith_eval)

text \<open>The running sum of the incomes.\<close>

lemma posNum_gt: "posNum j \<Longrightarrow> jsGt j (Finite 0)"
  using tiny_pos by (auto simp: posNum_def jsGt_def jsLt_def val_def)

lemma accOk_gt_iff: "accOk j \<Longrightarrow> jsGt j (Finite 0) \<longleftrightarrow> posNum j"
  using tiny_pos by (auto simp: accOk_def posNum_def jsGt_def jsLt_def val_def)

lemma accOk_nonneg: "accOk j \<Longrightarrow> jsLe (Finite 0) j"
  using tiny_pos by (auto simp: accOk_def posNum_def jsLe_def jsLt_def val_def)

lemma dadd_zero: "accOk a \<Longrightarrow> dadd a (Finite 0) = a"
  by (auto simp: accOk_def posNum_def dadd_def isInf_def val_def)

lemma dadd_pos:
  assumes "accOk a" and "posNum b" and "isFinite b"
  shows "posNum (dadd a b)"
proof -
  from assms(2,3) obtain y where b: "b = Finite y" and y: "tiny \<le> y"
    by (auto simp: posNum_def isFinite_def)
  from assms(1) consider "a = Finite 0" | "a = PosInfinity" | p where "a = Finite p" "tiny \<le> p"
    by (auto simp: accOk_def posNum_def)
  then show ?thesis
  proof cases
    case 1
    with b y tiny_pos show ?thesis by (auto simp: dadd_def isInf_def val_def posNum_def)
  next
    case 2
    with b show ?thesis by (simp add: dadd_def isInf_def posNum_def)
  next
    case 3
    with y tiny_pos have "tiny \<le> p + y" by simp
    then have "posNum (roundDouble (p + y))" by (rule roundDouble_posNum)
    with 3 b y tiny_pos show ?thesis by (simp add: dadd_def isInf_def val_def)
  qed
qed

lemma totalIncome_step:
  assumes "accOk a"
  shows "(if \<not> received s then a
          else (let amt = clampNumber (amount s)
                in dadd a (if jsGt amt (Finite 0) then amt else Finite 0)))
         = (if received s \<and> jsGt (clampNumber (amount s)) (Finite 0)
            then dadd a (clampNumber (amount s)) else a)"
  using dadd_zero [OF assms] by (simp add: Let_def)

lemma totalIncome_step_ok:
  assumes "accOk a"
  shows "accOk (if received s \<and> jsGt (clampNumber (amount s)) (Finite 0)
                then dadd a (clampNumber (amount s)) else a)"
  using assms dadd_pos [OF assms clampNumber_pos clampNumber_finite, of "amount s"]
  by (simp add: accOk_def)

lemma foldl_dadd_positive:
  assumes "\<And>s. P s \<Longrightarrow> posNum (g s) \<and> isFinite (g s)" and "accOk a"
  shows "accOk (foldl dadd a (map g (filter P srcs)))
         \<and> (posNum (foldl dadd a (map g (filter P srcs))) \<longleftrightarrow> posNum a \<or> list_ex P srcs)"
  using assms(2)
proof (induction srcs arbitrary: a)
  case Nil
  then show ?case by simp
next
  case (Cons s srcs)
  show ?case
  proof (cases "P s")
    case True
    with assms(1) have "posNum (g s)" and "isFinite (g s)" by simp_all
    with Cons.prems have p: "posNum (dadd a (g s))" by (rule dadd_pos)
    then have "accOk (dadd a (g s))" by (simp add: accOk_def)
    from Cons.IH [OF this] p True show ?thesis by simp
  next
    case False
    with Cons.IH [OF Cons.prems] show ?thesis by simp
  qed
qed

lemma sum_positive_ok:
  assumes "accOk a"
  shows "accOk (foldl dadd a (map (\<lambda>s. clampNumber (amount s))
             (filter (\<lambda>s. received s \<and> jsGt (clampNumber (amount s)) (Finite 0)) srcs)))
         \<and> (posNum (foldl dadd a (map (\<lambda>s. clampNumber (amount s))
             (filter (\<lambda>s. received s \<and> jsGt (clampNumber (amount s)) (Finite 0)) srcs)))
            \<longleftrightarrow> posNum a
              \<or> list_ex (\<lambda>s. received s \<and> jsGt (clampNumber (amount s)) (Finite 0)) srcs)"
  by (rule foldl_dadd_positive) (simp_all add: clampNumber_pos clampNumber_finite assms)

lemma totalIncome_foldl:
  assumes "accOk a"
  shows "foldl (\<lambda>sum s. if \<not> received s then sum
                else (let amt = clampNumber (amount s)
                      in dadd sum (if jsGt amt (Finite 0) then amt else Finite 0))) a srcs
         = foldl dadd a (map (\<lambda>s. clampNumber (amount s))
             (filter (\<lambda>s. received s \<and> jsGt (clampNumber (amount s)) (Finite 0)) srcs))"
  using assms
proof (induction srcs arbitrary: a)
  case Nil
  then show ?case by simp
next
  case (Cons s srcs)
  show ?case
  proof (cases "received s \<and> jsGt (clampNumber (amount s)) (Finite 0)")
    case True
    then have "posNum (clampNumber (amount s))" by (simp add: clampNumber_pos)
    with Cons.prems have "posNum (dadd a (clampNumber (amount s)))"
      by (rule dadd_pos) (rule clampNumber_finite)
    then have "accOk (dadd a (clampNumber (amount s)))" by (simp add: accOk_def)
    from Cons.IH [OF this] True show ?thesis by (simp add: Let_def)
  next
    case False
    then have "filter (\<lambda>s. received s \<and> jsGt (clampNumber (amount s)) (Finite 0)) (s # srcs)
                 = filter (\<lambda>s. received s \<and> jsGt (clampNumber (amount s)) (Finite 0)) srcs"
      by simp
    moreover have "(if \<not> received s then a
          else (let amt = clampNumber (amount s)
                in dadd a (if jsGt amt (Finite 0) then amt else Finite 0))) = a"
      using False dadd_zero [OF Cons.prems] by (auto simp: Let_def)
    ultimately show ?thesis using Cons.IH [OF Cons.prems] by (simp only: foldl_Cons)
  qed
qed

lemma accOk_zero: "accOk (Finite 0)"
  by (simp add: accOk_def)

lemma posNum_zero: "\<not> posNum (Finite 0)"
  using tiny_pos by (simp add: posNum_def)

lemma totalIncome_filter:
  "totalIncome srcs = foldl dadd (Finite 0) (map (\<lambda>s. clampNumber (amount s))
     (filter (\<lambda>s. received s \<and> jsGt (clampNumber (amount s)) (Finite 0)) srcs))"
  using totalIncome_foldl [OF accOk_zero, of srcs] by (simp add: totalIncome_def)

lemma totalIncome_accOk: "accOk (totalIncome srcs)"
  using sum_positive_ok [OF accOk_zero, of srcs] by (simp add: totalIncome_filter)

lemma totalIncome_pos_iff:
  "jsGt (totalIncome srcs) (Finite 0)
   \<longleftrightarrow> list_ex (\<lambda>s. received s \<and> jsGt (clampNumber (amount s)) (Finite 0)) srcs"
  using sum_positive_ok [OF accOk_zero, of srcs] posNum_zero
    accOk_gt_iff [OF totalIncome_accOk, of srcs]
  by (simp add: totalIncome_filter)

lemma step1_foldl:
  "foldl (\<lambda>errs s. if received s \<and> jsLe (clampNumber (amount s)) (Finite 0)
                  then errs @ [name s @ str '': amount must be > 0 if received is ON.'']
                  else errs) e srcs
   = e @ map (\<lambda>s. name s @ str '': amount must be > 0 if received is ON.'')
         (filter (\<lambda>s. received s \<and> jsLe (clampNumber (amount s)) (Finite 0)) srcs)"
  by (induction srcs arbitrary: e) simp_all

lemma step1Errors_eq:
  "step1Errors srcs =
     (if list_ex (\<lambda>s. received s \<and> jsGt (clampNumber (amount s)) (Finite 0)) srcs then []
      else [str ''At least 1 source must be marked received with an amount > 0.''])
     @ map (\<lambda>s. name s @ str '': amount must be > 0 if received is ON.'')
         (filter (\<lambda>s. received s \<and> jsLe (clampNumber (amount s)) (Finite 0)) srcs)"
  by (simp add: step1Errors_def step1_foldl)

lemma clampNumber_100: "clampNumber (str ''100'') = Finite 100"
  by (simp add: clampNumber_def Number_eval) (simp add: round_eval arith_eval)
lemma clampNumber_0: "clampNumber (str ''0'') = Finite 0"
  by (simp add: clampNumber_def Number_eval) (simp add: round_eval arith_eval)
lemma clampNumber_neg20: "clampNumber (str ''-20'') = Finite (- 20)"
  by (simp add: clampNumber_def Number_eval) (simp add: round_eval arith_eval)
lemma clampNumber_neg60: "clampNumber (str ''-60'') = Finite (- 60)"
  by (simp add: clampNumber_def Number_eval) (simp add: round_eval arith_eval)
lemma clampNumber_150: "clampNumber (str ''150'') = Finite 150"
  by (simp add: clampNumber_def Number_eval) (simp add: round_eval arith_eval)
lemma clampNumber_300: "clampNumber (str ''300'') = Finite 300"
  by (simp add: clampNumber_def Number_eval) (simp add: round_eval arith_eval)
lemma clampNumber_200: "clampNumber (str ''200'') = Finite 200"
  by (simp add: clampNumber_def Number_eval) (simp add: round_eval arith_eval)
lemma clampNumber_400: "clampNumber (str ''400'') = Finite 400"
  by (simp add: clampNumber_def Number_eval) (simp add: round_eval arith_eval)
lemma clampNumber_50: "clampNumber (str ''50'') = Finite 50"
  by (simp add: clampNumber_def Number_eval) (simp add: round_eval arith_eval)
lemma clampNumber_30: "clampNumber (str ''30'') = Finite 30"
  by (simp add: clampNumber_def Number_eval) (simp add: round_eval arith_eval)
lemma clampNumber_20: "clampNumber (str ''20'') = Finite 20"
  by (simp add: clampNumber_def Number_eval) (simp add: round_eval arith_eval)
lemma clampNumber_0_2: "clampNumber (str ''0.2'') = Finite (3602879701896397 / 18014398509481984)"
  by (simp add: clampNumber_def Number_eval) (simp add: round_eval arith_eval)
lemma clampNumber_83_9: "clampNumber (str ''83.9'') = Finite (2951968818253005 / 35184372088832)"
  by (simp add: clampNumber_def Number_eval) (simp add: round_eval arith_eval)
lemma clampNumber_15_9: "clampNumber (str ''15.9'') = Finite (8950904259398861 / 562949953421312)"
  by (simp add: clampNumber_def Number_eval) (simp add: round_eval arith_eval)
lemma clampNumber_0_0001:
  "clampNumber (str ''0.0001'') = Finite (7378697629483821 / 73786976294838206464)"
  by (simp add: clampNumber_def Number_eval) (simp add: round_eval arith_eval)

lemmas clampNumber_eval = clampNumber_1000 clampNumber_500 clampNumber_100 clampNumber_0
  clampNumber_empty clampNumber_abc clampNumber_neg5 clampNumber_neg20 clampNumber_neg60
  clampNumber_150 clampNumber_300 clampNumber_200 clampNumber_400 clampNumber_50 clampNumber_30
  clampNumber_20 clampNumber_0_1 clampNumber_0_2 clampNumber_83_9 clampNumber_15_9
  clampNumber_0_0001

lemma literal_0_0001: "roundDouble (1 / 10000) = Finite (7378697629483821 / 73786976294838206464)"
  by (simp add: round_eval)

lemma literal_100_0001: "roundDouble (1000001 / 10000) = Finite (3518440727320409 / 35184372088832)"
  by (simp add: round_eval)

lemma literal_100_0001_sum:
  "roundDouble (1000001 / 10000) = dadd (Finite 100) (roundDouble (1 / 10000))"
  by (simp add: literal_100_0001 literal_0_0001) (simp add: round_eval arith_eval)

lemma Number_abc: "Number (str ''abc'') = NaN"
  by (simp add: Number_eval)

lemma nonneg_cases:
  "jsLe (Finite 0) j \<longleftrightarrow> j = PosInfinity \<or> j = NegZero \<or> (\<exists>y. j = Finite y \<and> 0 \<le> y)"
  by (cases j) (auto simp: jsLe_def jsLt_def val_def)

lemma roundDouble_nonneg_le: "0 \<le> x \<Longrightarrow> jsLe (Finite 0) (roundDouble x)"
  using roundDouble_nonneg [of x] by (auto simp: nonneg_cases)

lemma dmul_nonneg:
  assumes "isFinite x" and "jsLe (Finite 0) x" and "isFinite y" and "jsLe (Finite 0) y"
  shows "jsLe (Finite 0) (dmul x y)"
proof -
  from assms(1,2) consider "x = NegZero" | a where "x = Finite a" "0 \<le> a"
    by (auto simp: nonneg_cases isFinite_def)
  then show ?thesis
  proof cases
    case 1
    from assms(3,4) consider "y = NegZero" | b where "y = Finite b" "0 \<le> b"
      by (auto simp: nonneg_cases isFinite_def)
    then show ?thesis
      using 1
      by cases
        (auto simp: dmul_def isInf_def val_def isNeg_def withSign_def negate_def roundDouble_def
          nonneg_cases)
  next
    case 2
    from assms(3,4) consider "y = NegZero" | b where "y = Finite b" "0 \<le> b"
      by (auto simp: nonneg_cases isFinite_def)
    then show ?thesis
    proof cases
      case 1
      with 2 show ?thesis
        by (auto simp: dmul_def isInf_def val_def isNeg_def withSign_def negate_def
            roundDouble_def nonneg_cases)
    next
      case (2 b)
      with \<open>x = Finite a\<close> \<open>0 \<le> a\<close> have "dmul x y = roundDouble (a * b)"
        by (simp add: dmul_def isInf_def val_def isNeg_def withSign_def)
      moreover have "0 \<le> a * b" using \<open>0 \<le> a\<close> \<open>0 \<le> b\<close> by simp
      ultimately show ?thesis by (simp add: roundDouble_nonneg_le)
    qed
  qed
qed

lemma ddiv_100_nonneg:
  assumes "jsLe (Finite 0) z"
  shows "jsLe (Finite 0) (ddiv z (Finite 100))"
proof -
  from assms consider "z = PosInfinity" | "z = NegZero" | a where "z = Finite a" "0 \<le> a"
    by (auto simp: nonneg_cases)
  then show ?thesis
  proof cases
    case 1
    then show ?thesis
      by (simp add: ddiv_def isInf_def isNeg_def withSign_def nonneg_cases)
  next
    case 2
    then show ?thesis
      by (simp add: ddiv_def isInf_def isNeg_def val_def withSign_def negate_def roundDouble_def
          nonneg_cases)
  next
    case 3
    then have "ddiv z (Finite 100) = roundDouble (a / 100)"
      by (simp add: ddiv_def isInf_def val_def isNeg_def withSign_def)
    moreover have "0 \<le> a / 100" using \<open>0 \<le> a\<close> by simp
    ultimately show ?thesis by (simp add: roundDouble_nonneg_le)
  qed
qed

lemma toAmt_nonneg:
  assumes "isFinite ti" and "jsLe (Finite 0) ti" and "jsLe (Finite 0) (clampNumber p)"
  shows "jsLe (Finite 0) (ddiv (dmul ti (clampNumber p)) (Finite 100))"
  by (rule ddiv_100_nonneg) (rule dmul_nonneg [OF assms(1,2) clampNumber_finite assms(3)])

lemmas engine_eval = totalIncome_of_def totalIncome_def step1Errors_of_def step1Errors_def
  allocatedTotal_of_def allocatedTotal_def fundsAsAmount_of_def fundsAsAmount_def
  remaining_of_def remaining_def step2Errors_of_def step2Errors_def step1Valid_of_def
  step1Valid_def canDone_of_def canDone_def

text \<open>
  With distinct ids, patching every source that has the id of the source at position
  \<open>i\<close> patches that position only.
\<close>

lemma map_patch_at_index:
  assumes "i < length xs" and "distinct (map id' xs)"
  shows "map (\<lambda>s. if id' s = id' (xs ! i) then f s else s) xs = xs[i := f (xs ! i)]"
proof (rule nth_equalityI)
  show "length (map (\<lambda>s. if id' s = id' (xs ! i) then f s else s) xs)
          = length (xs[i := f (xs ! i)])"
    by simp
next
  fix j
  assume "j < length (map (\<lambda>s. if id' s = id' (xs ! i) then f s else s) xs)"
  then have j: "j < length xs" by simp
  show "map (\<lambda>s. if id' s = id' (xs ! i) then f s else s) xs ! j = xs[i := f (xs ! i)] ! j"
  proof (cases "j = i")
    case True
    with assms(1) show ?thesis by simp
  next
    case False
    have "map id' xs ! j \<noteq> map id' xs ! i"
      using assms j False by (simp add: nth_eq_iff_index_eq del: nth_map)
    with j assms(1) have "id' (xs ! j) \<noteq> id' (xs ! i)" by simp
    with j False show ?thesis by simp
  qed
qed

section \<open>Claims\<close>

subsection \<open>Conversion of the fund fields\<close>

text \<open>
  C1, as the code has it. Under amount mode each output is the parsed field, where a
  text that does not parse to a finite number reads as 0; under percent mode each
  output is the total income times the parsed field, divided by 100, in the arithmetic
  of doubles. Nothing clamps a field at 0: a negative field gives a negative output.
  When the total income is finite and not below 0 and the four parsed fields are not
  below 0, the four outputs are not below 0 (an output is the positive infinity when
  the product overflows).
\<close>

theorem fundsAsAmount_unclamped:
  "fundsAsAmount fs Amount ti =
     \<lparr>ef = clampNumber (ef fs), sf = clampNumber (sf fs),
      spending = clampNumber (spending fs), fun' = clampNumber (fun' fs)\<rparr>
   \<and> fundsAsAmount fs Percent ti =
     \<lparr>ef = ddiv (dmul ti (clampNumber (ef fs))) (Finite 100),
      sf = ddiv (dmul ti (clampNumber (sf fs))) (Finite 100),
      spending = ddiv (dmul ti (clampNumber (spending fs))) (Finite 100),
      fun' = ddiv (dmul ti (clampNumber (fun' fs))) (Finite 100)\<rparr>
   \<and> (\<not> isFinite (Number v) \<longrightarrow> clampNumber v = Finite 0)
   \<and> (isFinite ti \<and> jsLe (Finite 0) ti
        \<and> jsLe (Finite 0) (clampNumber (ef fs)) \<and> jsLe (Finite 0) (clampNumber (sf fs))
        \<and> jsLe (Finite 0) (clampNumber (spending fs)) \<and> jsLe (Finite 0) (clampNumber (fun' fs))
      \<longrightarrow> jsLe (Finite 0) (ef (fundsAsAmount fs m ti))
          \<and> jsLe (Finite 0) (sf (fundsAsAmount fs m ti))
          \<and> jsLe (Finite 0) (spending (fundsAsAmount fs m ti))
          \<and> jsLe (Finite 0) (fun' (fundsAsAmount fs m ti)))"
proof -
  have "\<not> isFinite (Number v) \<longrightarrow> clampNumber v = Finite 0"
    by (simp add: clampNumber_def)
  then show ?thesis
    by (cases m) (simp_all add: fundsAsAmount_def toAmt_nonneg)
qed

text \<open>
  The field \<^verbatim>\<open>"-5"\<close> with a total income of 1000: the output is -5 under amount
  mode and -50 under percent mode. With the total income \<^verbatim>\<open>Infinity\<close>, which is not
  below 0, and an empty field the percent output is \<^verbatim>\<open>NaN\<close>.
\<close>

theorem fundsAsAmount_nonneg_counterexample:
  "\<not> jsLe (Finite 0)
       (ef (fundsAsAmount \<lparr>ef = str ''-5'', sf = str ''0'', spending = str ''0'', fun' = str ''0''\<rparr>
              Amount (Finite 1000)))
   \<and> ef (fundsAsAmount \<lparr>ef = str ''-5'', sf = str ''0'', spending = str ''0'', fun' = str ''0''\<rparr>
              Amount (Finite 1000)) = Finite (- 5)
   \<and> \<not> jsLe (Finite 0)
       (ef (fundsAsAmount \<lparr>ef = str ''-5'', sf = str ''0'', spending = str ''0'', fun' = str ''0''\<rparr>
              Percent (Finite 1000)))
   \<and> ef (fundsAsAmount \<lparr>ef = str ''-5'', sf = str ''0'', spending = str ''0'', fun' = str ''0''\<rparr>
              Percent (Finite 1000)) = Finite (- 50)
   \<and> jsLe (Finite 0) PosInfinity
   \<and> ef (fundsAsAmount \<lparr>ef = [], sf = [], spending = [], fun' = []\<rparr> Percent PosInfinity) = NaN
   \<and> \<not> jsLe (Finite 0)
       (ef (fundsAsAmount \<lparr>ef = [], sf = [], spending = [], fun' = []\<rparr> Percent PosInfinity))"
  by (simp add: fundsAsAmount_def clampNumber_eval) (simp add: arith_eval round_eval)

theorem fundsAsAmount_unclamped_witness:
  "isFinite (Finite 1000) \<and> jsLe (Finite 0) (Finite 1000)
   \<and> jsLe (Finite 0) (clampNumber (str ''30'')) \<and> jsLe (Finite 0) (clampNumber (str ''abc''))
   \<and> jsLe (Finite 0) (clampNumber []) \<and> jsLe (Finite 0) (clampNumber (str ''20''))
   \<and> \<not> isFinite (Number (str ''abc''))
   \<and> fundsAsAmount \<lparr>ef = str ''30'', sf = str ''abc'', spending = [], fun' = str ''20''\<rparr>
        Amount (Finite 1000)
       = \<lparr>ef = Finite 30, sf = Finite 0, spending = Finite 0, fun' = Finite 20\<rparr>
   \<and> fundsAsAmount \<lparr>ef = str ''30'', sf = str ''abc'', spending = [], fun' = str ''20''\<rparr>
        Percent (Finite 1000)
       = \<lparr>ef = Finite 300, sf = Finite 0, spending = Finite 0, fun' = Finite 200\<rparr>
   \<and> jsLe (Finite 0)
       (ef (fundsAsAmount \<lparr>ef = str ''30'', sf = str ''abc'', spending = [], fun' = str ''20''\<rparr>
              Percent (Finite 1000)))"
  using fundsAsAmount_unclamped
    [where fs = "\<lparr>ef = str ''30'', sf = str ''abc'', spending = [], fun' = str ''20''\<rparr>"
       and ti = "Finite 1000" and m = Percent and v = "str ''abc''"]
  by (simp add: clampNumber_eval Number_abc) (simp add: arith_eval round_eval)

subsection \<open>Stage 1\<close>

text \<open>
  C2, as the code has it. The list of stage-1 errors is empty exactly when the total
  income is above 0 and no received source has a parsed amount of 0 or less. So an empty
  list gives a positive total income, but a positive total income does not give an empty
  list: a second source that is received with amount 0 adds its own error.
\<close>

theorem step1Errors_empty_iff:
  "step1Errors srcs = [] \<longleftrightarrow>
     jsGt (totalIncome srcs) (Finite 0)
     \<and> \<not> list_ex (\<lambda>s. received s \<and> jsLe (clampNumber (amount s)) (Finite 0)) srcs"
  by (simp add: step1Errors_eq totalIncome_pos_iff filter_empty_conv list_ex_iff)

text \<open>
  Two received sources with the amounts \<^verbatim>\<open>"100"\<close> and \<^verbatim>\<open>"0"\<close>: the total income is
  100, and the second source has its error.
\<close>

theorem step1Errors_totalIncome_counterexample:
  "\<not> (step1Errors
         [\<lparr>id' = str ''bpi'', name = str ''BPI'', received = True, amount = str ''100''\<rparr>,
          \<lparr>id' = str ''gcash'', name = str ''GCash'', received = True, amount = str ''0''\<rparr>] = []
       \<longleftrightarrow> jsGt (totalIncome
         [\<lparr>id' = str ''bpi'', name = str ''BPI'', received = True, amount = str ''100''\<rparr>,
          \<lparr>id' = str ''gcash'', name = str ''GCash'', received = True, amount = str ''0''\<rparr>])
           (Finite 0))"
  by (simp add: step1Errors_def totalIncome_def clampNumber_eval) (simp add: arith_eval)

theorem step1Errors_empty_iff_witness:
  "step1Errors
     [\<lparr>id' = str ''bpi'', name = str ''BPI'', received = True, amount = str ''1000''\<rparr>,
      \<lparr>id' = str ''gcash'', name = str ''GCash'', received = False, amount = str ''500''\<rparr>] = []
   \<and> jsGt (totalIncome
     [\<lparr>id' = str ''bpi'', name = str ''BPI'', received = True, amount = str ''1000''\<rparr>,
      \<lparr>id' = str ''gcash'', name = str ''GCash'', received = False, amount = str ''500''\<rparr>])
       (Finite 0)"
  using step1Errors_empty_iff
    [of "[\<lparr>id' = str ''bpi'', name = str ''BPI'', received = True, amount = str ''1000''\<rparr>,
          \<lparr>id' = str ''gcash'', name = str ''GCash'', received = False, amount = str ''500''\<rparr>]"]
  by (simp add: totalIncome_def clampNumber_eval) (simp add: arith_eval)

text \<open>
  C3. The total income is the sum, added from left to right in the arithmetic of
  doubles and starting at 0, of the parsed amounts of exactly the sources that are
  received and whose parsed amount is above 0 (every other source adds nothing), and it
  is never below 0. The instance below has the amounts 1000, abc and -20 (total 1000)
  and the amounts 0.1 and 0.2 (total 0.30000000000000004).
\<close>

theorem totalIncome_sum_received_positive:
  "totalIncome srcs =
     foldl dadd (Finite 0)
       (map (\<lambda>s. clampNumber (amount s))
          (filter (\<lambda>s. received s \<and> jsGt (clampNumber (amount s)) (Finite 0)) srcs))
   \<and> jsLe (Finite 0) (totalIncome srcs)"
  using totalIncome_filter [of srcs] accOk_nonneg [OF totalIncome_accOk, of srcs] by simp

theorem totalIncome_sum_received_positive_witness:
  "totalIncome
     [\<lparr>id' = str ''bpi'', name = str ''BPI'', received = True, amount = str ''1000''\<rparr>,
      \<lparr>id' = str ''gcash'', name = str ''GCash'', received = False, amount = str ''500''\<rparr>,
      \<lparr>id' = str ''maya'', name = str ''Maya'', received = True, amount = str ''abc''\<rparr>,
      \<lparr>id' = str ''cash'', name = str ''Cash'', received = True, amount = str ''-20''\<rparr>]
     = Finite 1000
   \<and> totalIncome
     [\<lparr>id' = str ''bpi'', name = str ''BPI'', received = True, amount = str ''0.1''\<rparr>,
      \<lparr>id' = str ''gcash'', name = str ''GCash'', received = True, amount = str ''0.2''\<rparr>]
     = Finite (1351079888211149 / 4503599627370496)"
  using totalIncome_sum_received_positive
    [of "[\<lparr>id' = str ''bpi'', name = str ''BPI'', received = True, amount = str ''1000''\<rparr>,
          \<lparr>id' = str ''gcash'', name = str ''GCash'', received = False, amount = str ''500''\<rparr>,
          \<lparr>id' = str ''maya'', name = str ''Maya'', received = True, amount = str ''abc''\<rparr>,
          \<lparr>id' = str ''cash'', name = str ''Cash'', received = True, amount = str ''-20''\<rparr>]"]
    totalIncome_sum_received_positive
    [of "[\<lparr>id' = str ''bpi'', name = str ''BPI'', received = True, amount = str ''0.1''\<rparr>,
          \<lparr>id' = str ''gcash'', name = str ''GCash'', received = True, amount = str ''0.2''\<rparr>]"]
  by (simp add: clampNumber_eval) (simp add: arith_eval round_eval)

subsection \<open>Stage 2\<close>

text \<open>
  C4. When stage 1 is not valid, the stage-2 errors are the locked message alone,
  whatever the mode, the fund fields, the allocated total and the total income are; in
  particular a state whose total income is 0 has exactly that error and cannot finalize.
\<close>

theorem step2Errors_locked:
  "step2Errors False m fs alloc ti
     = [str ''Step 2 is locked until Step 1 has a valid total income.'']
   \<and> (totalIncome_of st = Finite 0 \<longrightarrow>
        step2Errors_of st = [str ''Step 2 is locked until Step 1 has a valid total income.'']
        \<and> \<not> canDone_of st)"
  by (simp add: step2Errors_def step2Errors_of_def step1Valid_of_def step1Valid_def
      canDone_of_def canDone_def jsGt_def jsLt_def)

theorem step2Errors_locked_witness:
  "totalIncome_of
     \<lparr>sources = [\<lparr>id' = str ''bpi'', name = str ''BPI'', received = False, amount = str ''1000''\<rparr>,
                 \<lparr>id' = str ''gcash'', name = str ''GCash'', received = True, amount = str ''abc''\<rparr>],
      mode = Percent,
      funds = \<lparr>ef = str ''30'', sf = str ''30'', spending = str ''30'', fun' = str ''20''\<rparr>,
      toast = None, doneSummary = None\<rparr> = Finite 0
   \<and> step2Errors_of
     \<lparr>sources = [\<lparr>id' = str ''bpi'', name = str ''BPI'', received = False, amount = str ''1000''\<rparr>,
                 \<lparr>id' = str ''gcash'', name = str ''GCash'', received = True, amount = str ''abc''\<rparr>],
      mode = Percent,
      funds = \<lparr>ef = str ''30'', sf = str ''30'', spending = str ''30'', fun' = str ''20''\<rparr>,
      toast = None, doneSummary = None\<rparr>
       = [str ''Step 2 is locked until Step 1 has a valid total income.'']"
  using step2Errors_locked
    [where st =
      "\<lparr>sources = [\<lparr>id' = str ''bpi'', name = str ''BPI'', received = False, amount = str ''1000''\<rparr>,
                   \<lparr>id' = str ''gcash'', name = str ''GCash'', received = True, amount = str ''abc''\<rparr>],
        mode = Percent,
        funds = \<lparr>ef = str ''30'', sf = str ''30'', spending = str ''30'', fun' = str ''20''\<rparr>,
        toast = None, doneSummary = None\<rparr>"]
  by (simp add: totalIncome_of_def totalIncome_def clampNumber_eval) (simp add: arith_eval)

text \<open>
  C5. With stage 1 valid and the mode percent, the stage-2 errors are the
  percent-total message alone when the sum of the four parsed fields (not of the
  converted amounts), added from left to right in doubles, is above \<open>100 + 0.0001\<close>,
  and empty otherwise; no single field is compared with 100. In doubles
  \<open>100 + 0.0001\<close> is the literal \<^verbatim>\<open>100.0001\<close> of the code. The instance below has the
  fields 30, 30, 30, 20 (sum 110: the error, and no finalizing), the fields 150, -60,
  0, 0 (one field above 100, sum 90: no error) and the fields 0.2, 83.9, 15.9, 0.0001
  (sum 100.00010000000002: the error).
\<close>

theorem step2Errors_percent_total:
  assumes "step1Valid_of st" and "mode st = Percent"
  shows "step2Errors_of st =
           (if jsGt (dadd (dadd (dadd (clampNumber (ef (funds st))) (clampNumber (sf (funds st))))
                           (clampNumber (spending (funds st))))
                      (clampNumber (fun' (funds st))))
                 (dadd (Finite 100) (roundDouble (1 / 10000)))
            then [str ''Total percent cannot exceed 100%.''] else [])
         \<and> (canDone_of st \<longleftrightarrow>
              \<not> jsGt (dadd (dadd (dadd (clampNumber (ef (funds st))) (clampNumber (sf (funds st))))
                              (clampNumber (spending (funds st))))
                         (clampNumber (fun' (funds st))))
                    (dadd (Finite 100) (roundDouble (1 / 10000))))
         \<and> dadd (Finite 100) (roundDouble (1 / 10000)) = roundDouble (1000001 / 10000)"
  using assms
  by (simp add: step2Errors_of_def step2Errors_def canDone_of_def canDone_def
      literal_100_0001_sum [symmetric])

theorem step2Errors_percent_total_witness:
  "step1Valid_of
     \<lparr>sources = [\<lparr>id' = str ''bpi'', name = str ''BPI'', received = True, amount = str ''1000''\<rparr>,
                 \<lparr>id' = str ''gcash'', name = str ''GCash'', received = False, amount = str ''500''\<rparr>],
      mode = Percent,
      funds = \<lparr>ef = str ''30'', sf = str ''30'', spending = str ''30'', fun' = str ''20''\<rparr>,
      toast = None, doneSummary = None\<rparr>
   \<and> step2Errors_of
     \<lparr>sources = [\<lparr>id' = str ''bpi'', name = str ''BPI'', received = True, amount = str ''1000''\<rparr>,
                 \<lparr>id' = str ''gcash'', name = str ''GCash'', received = False, amount = str ''500''\<rparr>],
      mode = Percent,
      funds = \<lparr>ef = str ''30'', sf = str ''30'', spending = str ''30'', fun' = str ''20''\<rparr>,
      toast = None, doneSummary = None\<rparr>
       = [str ''Total percent cannot exceed 100%.'']
   \<and> \<not> canDone_of
     \<lparr>sources = [\<lparr>id' = str ''bpi'', name = str ''BPI'', received = True, amount = str ''1000''\<rparr>,
                 \<lparr>id' = str ''gcash'', name = str ''GCash'', received = False, amount = str ''500''\<rparr>],
      mode = Percent,
      funds = \<lparr>ef = str ''30'', sf = str ''30'', spending = str ''30'', fun' = str ''20''\<rparr>,
      toast = None, doneSummary = None\<rparr>
   \<and> jsGt (clampNumber (str ''150'')) (Finite 100)
   \<and> step2Errors_of
     \<lparr>sources = [\<lparr>id' = str ''bpi'', name = str ''BPI'', received = True, amount = str ''1000''\<rparr>,
                 \<lparr>id' = str ''gcash'', name = str ''GCash'', received = False, amount = str ''500''\<rparr>],
      mode = Percent,
      funds = \<lparr>ef = str ''150'', sf = str ''-60'', spending = str ''0'', fun' = str ''0''\<rparr>,
      toast = None, doneSummary = None\<rparr>
       = []
   \<and> step2Errors_of
     \<lparr>sources = [\<lparr>id' = str ''bpi'', name = str ''BPI'', received = True, amount = str ''1000''\<rparr>,
                 \<lparr>id' = str ''gcash'', name = str ''GCash'', received = False, amount = str ''500''\<rparr>],
      mode = Percent,
      funds = \<lparr>ef = str ''0.2'', sf = str ''83.9'', spending = str ''15.9'', fun' = str ''0.0001''\<rparr>,
      toast = None, doneSummary = None\<rparr>
       = [str ''Total percent cannot exceed 100%.'']"
  using step2Errors_percent_total
    [of "\<lparr>sources = [\<lparr>id' = str ''bpi'', name = str ''BPI'', received = True, amount = str ''1000''\<rparr>,
                     \<lparr>id' = str ''gcash'', name = str ''GCash'', received = False, amount = str ''500''\<rparr>],
          mode = Percent,
          funds = \<lparr>ef = str ''30'', sf = str ''30'', spending = str ''30'', fun' = str ''20''\<rparr>,
          toast = None, doneSummary = None\<rparr>"]
    step2Errors_percent_total
    [of "\<lparr>sources = [\<lparr>id' = str ''bpi'', name = str ''BPI'', received = True, amount = str ''1000''\<rparr>,
                     \<lparr>id' = str ''gcash'', name = str ''GCash'', received = False, amount = str ''500''\<rparr>],
          mode = Percent,
          funds = \<lparr>ef = str ''150'', sf = str ''-60'', spending = str ''0'', fun' = str ''0''\<rparr>,
          toast = None, doneSummary = None\<rparr>"]
    step2Errors_percent_total
    [of "\<lparr>sources = [\<lparr>id' = str ''bpi'', name = str ''BPI'', received = True, amount = str ''1000''\<rparr>,
                     \<lparr>id' = str ''gcash'', name = str ''GCash'', received = False, amount = str ''500''\<rparr>],
          mode = Percent,
          funds = \<lparr>ef = str ''0.2'', sf = str ''83.9'', spending = str ''15.9'', fun' = str ''0.0001''\<rparr>,
          toast = None, doneSummary = None\<rparr>"]
  by (simp add: step1Valid_of_def step1Valid_def totalIncome_of_def totalIncome_def
      clampNumber_eval literal_0_0001)
     (simp add: arith_eval round_eval)

text \<open>
  C6. Switching the mode leaves the stored texts of the fund fields (and the sources)
  as they are; after a switch to percent and back to amount the converted amounts are
  the parsed texts themselves, with no conversion of units.
\<close>

theorem setMode_keeps_text:
  "funds (setMode m st) = funds st
   \<and> sources (setMode m st) = sources st
   \<and> funds (setMode Amount (setMode Percent st)) = funds st
   \<and> fundsAsAmount_of (setMode Amount (setMode Percent st)) =
       \<lparr>ef = clampNumber (ef (funds st)), sf = clampNumber (sf (funds st)),
        spending = clampNumber (spending (funds st)), fun' = clampNumber (fun' (funds st))\<rparr>"
  by (simp add: setMode_def fundsAsAmount_of_def fundsAsAmount_def)

theorem setMode_keeps_text_witness:
  "fundsAsAmount_of
     (setMode Percent
        \<lparr>sources = [\<lparr>id' = str ''bpi'', name = str ''BPI'', received = True, amount = str ''1000''\<rparr>],
         mode = Amount,
         funds = \<lparr>ef = str ''30'', sf = str ''30'', spending = str ''20'', fun' = str ''20''\<rparr>,
         toast = None, doneSummary = None\<rparr>)
     = \<lparr>ef = Finite 300, sf = Finite 300, spending = Finite 200, fun' = Finite 200\<rparr>
   \<and> fundsAsAmount_of
     (setMode Amount (setMode Percent
        \<lparr>sources = [\<lparr>id' = str ''bpi'', name = str ''BPI'', received = True, amount = str ''1000''\<rparr>],
         mode = Amount,
         funds = \<lparr>ef = str ''30'', sf = str ''30'', spending = str ''20'', fun' = str ''20''\<rparr>,
         toast = None, doneSummary = None\<rparr>))
     = \<lparr>ef = Finite 30, sf = Finite 30, spending = Finite 20, fun' = Finite 20\<rparr>
   \<and> funds
     (setMode Amount (setMode Percent
        \<lparr>sources = [\<lparr>id' = str ''bpi'', name = str ''BPI'', received = True, amount = str ''1000''\<rparr>],
         mode = Amount,
         funds = \<lparr>ef = str ''30'', sf = str ''30'', spending = str ''20'', fun' = str ''20''\<rparr>,
         toast = None, doneSummary = None\<rparr>))
     = \<lparr>ef = str ''30'', sf = str ''30'', spending = str ''20'', fun' = str ''20''\<rparr>"
  using setMode_keeps_text
    [of Percent
        "\<lparr>sources = [\<lparr>id' = str ''bpi'', name = str ''BPI'', received = True, amount = str ''1000''\<rparr>],
          mode = Amount,
          funds = \<lparr>ef = str ''30'', sf = str ''30'', spending = str ''20'', fun' = str ''20''\<rparr>,
          toast = None, doneSummary = None\<rparr>"]
  by (simp add: setMode_def fundsAsAmount_of_def fundsAsAmount_def totalIncome_of_def
      totalIncome_def clampNumber_eval)
     (simp add: arith_eval round_eval)

text \<open>
  C7. The scenario of a received source with amount \<^verbatim>\<open>"1000"\<close>, a source that is not
  received with amount \<^verbatim>\<open>"500"\<close>, amount mode and the fund fields 300, 200, 400 and
  50: total income 1000, no stage-1 error, allocated total 950, remaining 50, no stage-2
  error, and finalizing allowed. The ids and names of the sources, the toast and the
  snapshot do not matter.
\<close>

theorem scenario_amount_mode:
  "totalIncome_of
     \<lparr>sources = [\<lparr>id' = i1, name = n1, received = True, amount = str ''1000''\<rparr>,
                 \<lparr>id' = i2, name = n2, received = False, amount = str ''500''\<rparr>],
      mode = Amount,
      funds = \<lparr>ef = str ''300'', sf = str ''200'', spending = str ''400'', fun' = str ''50''\<rparr>,
      toast = t, doneSummary = d\<rparr> = Finite 1000
   \<and> step1Errors_of
     \<lparr>sources = [\<lparr>id' = i1, name = n1, received = True, amount = str ''1000''\<rparr>,
                 \<lparr>id' = i2, name = n2, received = False, amount = str ''500''\<rparr>],
      mode = Amount,
      funds = \<lparr>ef = str ''300'', sf = str ''200'', spending = str ''400'', fun' = str ''50''\<rparr>,
      toast = t, doneSummary = d\<rparr> = []
   \<and> allocatedTotal_of
     \<lparr>sources = [\<lparr>id' = i1, name = n1, received = True, amount = str ''1000''\<rparr>,
                 \<lparr>id' = i2, name = n2, received = False, amount = str ''500''\<rparr>],
      mode = Amount,
      funds = \<lparr>ef = str ''300'', sf = str ''200'', spending = str ''400'', fun' = str ''50''\<rparr>,
      toast = t, doneSummary = d\<rparr> = Finite 950
   \<and> remaining_of
     \<lparr>sources = [\<lparr>id' = i1, name = n1, received = True, amount = str ''1000''\<rparr>,
                 \<lparr>id' = i2, name = n2, received = False, amount = str ''500''\<rparr>],
      mode = Amount,
      funds = \<lparr>ef = str ''300'', sf = str ''200'', spending = str ''400'', fun' = str ''50''\<rparr>,
      toast = t, doneSummary = d\<rparr> = Finite 50
   \<and> step2Errors_of
     \<lparr>sources = [\<lparr>id' = i1, name = n1, received = True, amount = str ''1000''\<rparr>,
                 \<lparr>id' = i2, name = n2, received = False, amount = str ''500''\<rparr>],
      mode = Amount,
      funds = \<lparr>ef = str ''300'', sf = str ''200'', spending = str ''400'', fun' = str ''50''\<rparr>,
      toast = t, doneSummary = d\<rparr> = []
   \<and> canDone_of
     \<lparr>sources = [\<lparr>id' = i1, name = n1, received = True, amount = str ''1000''\<rparr>,
                 \<lparr>id' = i2, name = n2, received = False, amount = str ''500''\<rparr>],
      mode = Amount,
      funds = \<lparr>ef = str ''300'', sf = str ''200'', spending = str ''400'', fun' = str ''50''\<rparr>,
      toast = t, doneSummary = d\<rparr>"
  by (simp add: engine_eval clampNumber_eval literal_0_0001) (simp add: arith_eval round_eval)

theorem scenario_amount_mode_witness:
  "remaining_of
     \<lparr>sources = [\<lparr>id' = str ''bpi'', name = str ''BPI'', received = True, amount = str ''1000''\<rparr>,
                 \<lparr>id' = str ''gcash'', name = str ''GCash'', received = False, amount = str ''500''\<rparr>],
      mode = Amount,
      funds = \<lparr>ef = str ''300'', sf = str ''200'', spending = str ''400'', fun' = str ''50''\<rparr>,
      toast = None, doneSummary = None\<rparr> = Finite 50
   \<and> canDone_of
     \<lparr>sources = [\<lparr>id' = str ''bpi'', name = str ''BPI'', received = True, amount = str ''1000''\<rparr>,
                 \<lparr>id' = str ''gcash'', name = str ''GCash'', received = False, amount = str ''500''\<rparr>],
      mode = Amount,
      funds = \<lparr>ef = str ''300'', sf = str ''200'', spending = str ''400'', fun' = str ''50''\<rparr>,
      toast = None, doneSummary = None\<rparr>"
  using scenario_amount_mode [of "str ''bpi''" "str ''BPI''" "str ''gcash''" "str ''GCash''" None None]
  by simp

subsection \<open>Handlers\<close>

text \<open>
  C8. Reset maps every source of the list, in place, to the same id and name with
  received off and the empty amount, so the list keeps its length, its order, its ids
  and its names; it empties the four fund fields, sets the mode to amount and clears
  the finalized snapshot.
\<close>

theorem resetAll_effect:
  "sources (resetAll st) =
     map (\<lambda>s. \<lparr>id' = id' s, name = name s, received = False, amount = []\<rparr>) (sources st)
   \<and> length (sources (resetAll st)) = length (sources st)
   \<and> map id' (sources (resetAll st)) = map id' (sources st)
   \<and> map name (sources (resetAll st)) = map name (sources st)
   \<and> list_all (\<lambda>s. \<not> received s \<and> amount s = []) (sources (resetAll st))
   \<and> funds (resetAll st) = \<lparr>ef = [], sf = [], spending = [], fun' = []\<rparr>
   \<and> mode (resetAll st) = Amount
   \<and> doneSummary (resetAll st) = None"
  by (simp add: resetAll_def showToast_def list_all_iff comp_def)

theorem resetAll_effect_witness:
  "sources (resetAll
     \<lparr>sources = [\<lparr>id' = str ''bpi'', name = str ''BPI'', received = True, amount = str ''1000''\<rparr>,
                 \<lparr>id' = str ''gcash'', name = str ''GCash'', received = False, amount = []\<rparr>,
                 \<lparr>id' = str ''maya-1700000000000'', name = str ''Maya'', received = True,
                  amount = str ''250''\<rparr>],
      mode = Percent,
      funds = \<lparr>ef = str ''30'', sf = str ''30'', spending = str ''20'', fun' = str ''20''\<rparr>,
      toast = None,
      doneSummary = Some \<lparr>ef = Finite 375, sf = Finite 375, spending = Finite 250, fun' = Finite 250\<rparr>\<rparr>)
   = [\<lparr>id' = str ''bpi'', name = str ''BPI'', received = False, amount = []\<rparr>,
      \<lparr>id' = str ''gcash'', name = str ''GCash'', received = False, amount = []\<rparr>,
      \<lparr>id' = str ''maya-1700000000000'', name = str ''Maya'', received = False, amount = []\<rparr>]
   \<and> doneSummary (resetAll
     \<lparr>sources = [\<lparr>id' = str ''bpi'', name = str ''BPI'', received = True, amount = str ''1000''\<rparr>,
                 \<lparr>id' = str ''gcash'', name = str ''GCash'', received = False, amount = []\<rparr>,
                 \<lparr>id' = str ''maya-1700000000000'', name = str ''Maya'', received = True,
                  amount = str ''250''\<rparr>],
      mode = Percent,
      funds = \<lparr>ef = str ''30'', sf = str ''30'', spending = str ''20'', fun' = str ''20''\<rparr>,
      toast = None,
      doneSummary = Some \<lparr>ef = Finite 375, sf = Finite 375, spending = Finite 250, fun' = Finite 250\<rparr>\<rparr>) = None
   \<and> mode (resetAll
     \<lparr>sources = [\<lparr>id' = str ''bpi'', name = str ''BPI'', received = True, amount = str ''1000''\<rparr>,
                 \<lparr>id' = str ''gcash'', name = str ''GCash'', received = False, amount = []\<rparr>,
                 \<lparr>id' = str ''maya-1700000000000'', name = str ''Maya'', received = True,
                  amount = str ''250''\<rparr>],
      mode = Percent,
      funds = \<lparr>ef = str ''30'', sf = str ''30'', spending = str ''20'', fun' = str ''20''\<rparr>,
      toast = None,
      doneSummary = Some \<lparr>ef = Finite 375, sf = Finite 375, spending = Finite 250, fun' = Finite 250\<rparr>\<rparr>) = Amount"
  using resetAll_effect
    [of "\<lparr>sources = [\<lparr>id' = str ''bpi'', name = str ''BPI'', received = True, amount = str ''1000''\<rparr>,
                     \<lparr>id' = str ''gcash'', name = str ''GCash'', received = False, amount = []\<rparr>,
                     \<lparr>id' = str ''maya-1700000000000'', name = str ''Maya'', received = True,
                      amount = str ''250''\<rparr>],
          mode = Percent,
          funds = \<lparr>ef = str ''30'', sf = str ''30'', spending = str ''20'', fun' = str ''20''\<rparr>,
          toast = None,
          doneSummary = Some \<lparr>ef = Finite 375, sf = Finite 375, spending = Finite 250, fun' = Finite 250\<rparr>\<rparr>"]
  by simp

text \<open>
  C9. When finalizing is not allowed, DONE changes nothing but the toast: the finalized
  snapshot, the sources, the fund fields and the mode stay as they are. When the list
  of stage-1 errors is not empty, Save Step 1 changes nothing but the toast either, and
  an existing snapshot is kept.
\<close>

theorem handlers_atomic_on_error:
  "(\<not> canDone_of st \<longrightarrow>
      doneStep2Local st = st\<lparr>toast := Some (Error, str ''Fix Step 2 errors first.'')\<rparr>
      \<and> doneSummary (doneStep2Local st) = doneSummary st
      \<and> sources (doneStep2Local st) = sources st
      \<and> funds (doneStep2Local st) = funds st
      \<and> mode (doneStep2Local st) = mode st)
   \<and> (step1Errors_of st \<noteq> [] \<longrightarrow>
      saveStep1Local st = st\<lparr>toast := Some (Error, str ''Fix Step 1 errors first.'')\<rparr>
      \<and> doneSummary (saveStep1Local st) = doneSummary st
      \<and> sources (saveStep1Local st) = sources st
      \<and> funds (saveStep1Local st) = funds st
      \<and> mode (saveStep1Local st) = mode st)"
  by (simp add: doneStep2Local_def saveStep1Local_def showToast_def)

theorem handlers_atomic_on_error_witness:
  "\<not> canDone_of
     \<lparr>sources = [\<lparr>id' = str ''bpi'', name = str ''BPI'', received = True, amount = str ''1000''\<rparr>,
                 \<lparr>id' = str ''gcash'', name = str ''GCash'', received = True, amount = str ''0''\<rparr>],
      mode = Amount,
      funds = \<lparr>ef = str ''1000'', sf = str ''200'', spending = str ''0'', fun' = str ''0''\<rparr>,
      toast = None,
      doneSummary = Some \<lparr>ef = Finite 300, sf = Finite 200, spending = Finite 400, fun' = Finite 50\<rparr>\<rparr>
   \<and> doneSummary (doneStep2Local
     \<lparr>sources = [\<lparr>id' = str ''bpi'', name = str ''BPI'', received = True, amount = str ''1000''\<rparr>,
                 \<lparr>id' = str ''gcash'', name = str ''GCash'', received = True, amount = str ''0''\<rparr>],
      mode = Amount,
      funds = \<lparr>ef = str ''1000'', sf = str ''200'', spending = str ''0'', fun' = str ''0''\<rparr>,
      toast = None,
      doneSummary = Some \<lparr>ef = Finite 300, sf = Finite 200, spending = Finite 400, fun' = Finite 50\<rparr>\<rparr>)
     = Some \<lparr>ef = Finite 300, sf = Finite 200, spending = Finite 400, fun' = Finite 50\<rparr>
   \<and> step1Errors_of
     \<lparr>sources = [\<lparr>id' = str ''bpi'', name = str ''BPI'', received = True, amount = str ''1000''\<rparr>,
                 \<lparr>id' = str ''gcash'', name = str ''GCash'', received = True, amount = str ''0''\<rparr>],
      mode = Amount,
      funds = \<lparr>ef = str ''1000'', sf = str ''200'', spending = str ''0'', fun' = str ''0''\<rparr>,
      toast = None,
      doneSummary = Some \<lparr>ef = Finite 300, sf = Finite 200, spending = Finite 400, fun' = Finite 50\<rparr>\<rparr> \<noteq> []
   \<and> doneSummary (saveStep1Local
     \<lparr>sources = [\<lparr>id' = str ''bpi'', name = str ''BPI'', received = True, amount = str ''1000''\<rparr>,
                 \<lparr>id' = str ''gcash'', name = str ''GCash'', received = True, amount = str ''0''\<rparr>],
      mode = Amount,
      funds = \<lparr>ef = str ''1000'', sf = str ''200'', spending = str ''0'', fun' = str ''0''\<rparr>,
      toast = None,
      doneSummary = Some \<lparr>ef = Finite 300, sf = Finite 200, spending = Finite 400, fun' = Finite 50\<rparr>\<rparr>)
     = Some \<lparr>ef = Finite 300, sf = Finite 200, spending = Finite 400, fun' = Finite 50\<rparr>"
  using handlers_atomic_on_error
    [of "\<lparr>sources = [\<lparr>id' = str ''bpi'', name = str ''BPI'', received = True, amount = str ''1000''\<rparr>,
                     \<lparr>id' = str ''gcash'', name = str ''GCash'', received = True, amount = str ''0''\<rparr>],
          mode = Amount,
          funds = \<lparr>ef = str ''1000'', sf = str ''200'', spending = str ''0'', fun' = str ''0''\<rparr>,
          toast = None,
          doneSummary = Some \<lparr>ef = Finite 300, sf = Finite 200, spending = Finite 400, fun' = Finite 50\<rparr>\<rparr>"]
  by (simp add: canDone_of_def canDone_def step2Errors_of_def step2Errors_def step1Valid_of_def
      step1Valid_def totalIncome_of_def totalIncome_def allocatedTotal_of_def allocatedTotal_def
      fundsAsAmount_of_def fundsAsAmount_def step1Errors_of_def step1Errors_def clampNumber_eval
      literal_0_0001)
     (simp add: arith_eval round_eval)

text \<open>
  C10. The received checkbox of a source patches the sources that have its id: received
  becomes the new value of the checkbox, and the amount becomes the empty text when the
  box is cleared and stays the text of that source when the box is set. Every source
  with another id, the mode, the fund fields and the snapshot stay as they are. With
  distinct ids (the data model's ids are unique) the list changes at the position of
  that source only.
\<close>

theorem receivedOnChange_effect:
  "sources (receivedOnChange s checked st) =
     map (\<lambda>t. if id' t = id' s
               then t\<lparr>received := checked, amount := (if checked then amount s else [])\<rparr>
               else t) (sources st)
   \<and> mode (receivedOnChange s checked st) = mode st
   \<and> funds (receivedOnChange s checked st) = funds st
   \<and> doneSummary (receivedOnChange s checked st) = doneSummary st
   \<and> (i < length (sources st) \<and> distinct (map id' (sources st)) \<longrightarrow>
        receivedOnChange (sources st ! i) checked st =
          st\<lparr>sources := (sources st)
               [i := (sources st ! i)
                  \<lparr>received := checked,
                   amount := (if checked then amount (sources st ! i) else [])\<rparr>]\<rparr>)"
proof -
  have "receivedOnChange (sources st ! i) checked st =
          st\<lparr>sources := (sources st)
               [i := (sources st ! i)
                  \<lparr>received := checked,
                   amount := (if checked then amount (sources st ! i) else [])\<rparr>]\<rparr>"
    if "i < length (sources st)" and "distinct (map id' (sources st))"
    using map_patch_at_index [OF that]
    by (simp add: receivedOnChange_def updateSource_def applyPatch_def)
  then show ?thesis
    by (simp add: receivedOnChange_def updateSource_def applyPatch_def)
qed

theorem receivedOnChange_effect_witness:
  "(1::nat) < length [\<lparr>id' = str ''bpi'', name = str ''BPI'', received = True, amount = str ''1000''\<rparr>,
                      \<lparr>id' = str ''gcash'', name = str ''GCash'', received = True, amount = str ''500''\<rparr>,
                      \<lparr>id' = str ''maya-1700000000000'', name = str ''Maya'', received = False,
                       amount = []\<rparr>]
   \<and> distinct (map id' [\<lparr>id' = str ''bpi'', name = str ''BPI'', received = True, amount = str ''1000''\<rparr>,
                      \<lparr>id' = str ''gcash'', name = str ''GCash'', received = True, amount = str ''500''\<rparr>,
                      \<lparr>id' = str ''maya-1700000000000'', name = str ''Maya'', received = False,
                       amount = []\<rparr>])
   \<and> sources (receivedOnChange
     \<lparr>id' = str ''gcash'', name = str ''GCash'', received = True, amount = str ''500''\<rparr> False
     \<lparr>sources = [\<lparr>id' = str ''bpi'', name = str ''BPI'', received = True, amount = str ''1000''\<rparr>,
                 \<lparr>id' = str ''gcash'', name = str ''GCash'', received = True, amount = str ''500''\<rparr>,
                 \<lparr>id' = str ''maya-1700000000000'', name = str ''Maya'', received = False,
                  amount = []\<rparr>],
      mode = Amount,
      funds = \<lparr>ef = [], sf = [], spending = [], fun' = []\<rparr>,
      toast = None, doneSummary = None\<rparr>)
   = [\<lparr>id' = str ''bpi'', name = str ''BPI'', received = True, amount = str ''1000''\<rparr>,
      \<lparr>id' = str ''gcash'', name = str ''GCash'', received = False, amount = []\<rparr>,
      \<lparr>id' = str ''maya-1700000000000'', name = str ''Maya'', received = False, amount = []\<rparr>]
   \<and> sources (receivedOnChange
     \<lparr>id' = str ''gcash'', name = str ''GCash'', received = False, amount = str ''500''\<rparr> True
     \<lparr>sources = [\<lparr>id' = str ''bpi'', name = str ''BPI'', received = True, amount = str ''1000''\<rparr>,
                 \<lparr>id' = str ''gcash'', name = str ''GCash'', received = False, amount = str ''500''\<rparr>,
                 \<lparr>id' = str ''maya-1700000000000'', name = str ''Maya'', received = False,
                  amount = []\<rparr>],
      mode = Amount,
      funds = \<lparr>ef = [], sf = [], spending = [], fun' = []\<rparr>,
      toast = None, doneSummary = None\<rparr>)
   = [\<lparr>id' = str ''bpi'', name = str ''BPI'', received = True, amount = str ''1000''\<rparr>,
      \<lparr>id' = str ''gcash'', name = str ''GCash'', received = True, amount = str ''500''\<rparr>,
      \<lparr>id' = str ''maya-1700000000000'', name = str ''Maya'', received = False, amount = []\<rparr>]"
  using receivedOnChange_effect
    [where i = 1 and checked = False and st =
      "\<lparr>sources = [\<lparr>id' = str ''bpi'', name = str ''BPI'', received = True, amount = str ''1000''\<rparr>,
                   \<lparr>id' = str ''gcash'', name = str ''GCash'', received = True, amount = str ''500''\<rparr>,
                   \<lparr>id' = str ''maya-1700000000000'', name = str ''Maya'', received = False,
                    amount = []\<rparr>],
        mode = Amount,
        funds = \<lparr>ef = [], sf = [], spending = [], fun' = []\<rparr>,
        toast = None, doneSummary = None\<rparr>"]
    receivedOnChange_effect
    [where i = 1 and checked = True and st =
      "\<lparr>sources = [\<lparr>id' = str ''bpi'', name = str ''BPI'', received = True, amount = str ''1000''\<rparr>,
                   \<lparr>id' = str ''gcash'', name = str ''GCash'', received = False, amount = str ''500''\<rparr>,
                   \<lparr>id' = str ''maya-1700000000000'', name = str ''Maya'', received = False,
                    amount = []\<rparr>],
        mode = Amount,
        funds = \<lparr>ef = [], sf = [], spending = [], fun' = []\<rparr>,
        toast = None, doneSummary = None\<rparr>"]
  by (simp add: str_def)

end
